theory Spec2Isabelle
  imports Main "HOL-Library.Word"
begin

unbundle bit_operations_syntax

section \<open>The MCP23008 driver (devices/MCP23008)\<close>

text \<open>
  The driver talks to an 8-bit I/O expander over I2C. Its C++ methods mutate the driver
  object, the bus and the chip behind it, and end the program through \<open>error\<close> or
  \<open>MBED_ASSERT\<close> on a fatal condition. The model threads one state record through every
  method and returns, with the state reached, either the fatal error or the method's value.
  The state also records the sequence of mutex operations and bus transactions the method
  performed, in order.
\<close>

type_synonym u8 = "8 word"

subsection \<open>Enumerations of the header\<close>

datatype Frequency = Frequency_100KHz | Frequency_400KHz | Frequency_1700KHz

fun frequency_hz :: "Frequency \<Rightarrow> int" where
  "frequency_hz Frequency_100KHz = 100000"
| "frequency_hz Frequency_400KHz = 400000"
| "frequency_hz Frequency_1700KHz = 1700000"

datatype Pin =
  Pin_GP0 | Pin_GP1 | Pin_GP2 | Pin_GP3 | Pin_GP4 | Pin_GP5 | Pin_GP6 | Pin_GP7 | Pin_All

fun pin_mask :: "Pin \<Rightarrow> u8" where
  "pin_mask Pin_GP0 = 0x01"
| "pin_mask Pin_GP1 = 0x02"
| "pin_mask Pin_GP2 = 0x04"
| "pin_mask Pin_GP3 = 0x08"
| "pin_mask Pin_GP4 = 0x10"
| "pin_mask Pin_GP5 = 0x20"
| "pin_mask Pin_GP6 = 0x40"
| "pin_mask Pin_GP7 = 0x80"
| "pin_mask Pin_All = 0xFF"

text \<open>
  \<open>PinMode\<close> is declared by the platform, not by this repository. The driver names
  \<open>PullNone\<close>, \<open>PullUp\<close> and \<open>PullDown\<close>; \<open>OpenDrain\<close> stands for any further mode a target
  declares, which falls through both branches of \<open>ExpandedIO::mode\<close>.
\<close>

datatype PinMode = PullNone | PullUp | PullDown | OpenDrain

subsection \<open>Constants of the anonymous namespace\<close>

definition MCP23008_ADDRESS :: u8 where "MCP23008_ADDRESS = 0x40"

definition IODIR :: u8 where "IODIR = 0x00"
definition IPOL :: u8 where "IPOL = 0x01"
definition GPINTEN :: u8 where "GPINTEN = 0x02"
definition DEFVAL :: u8 where "DEFVAL = 0x03"
definition INTCON :: u8 where "INTCON = 0x04"
definition IOCON :: u8 where "IOCON = 0x05"
definition GPPU :: u8 where "GPPU = 0x06"
definition INTF :: u8 where "INTF = 0x07"
definition INTCAP :: u8 where "INTCAP = 0x08"
definition GPIO :: u8 where "GPIO = 0x09"
definition OLAT :: u8 where "OLAT = 0x0A"

subsection \<open>The chip behind the bus\<close>

text \<open>
  Modelled from the spec: the expander chip itself, which is hardware and not part of the
  sources. The register set is the one of the data model: eleven named 8-bit registers, of
  which direction, polarity, interrupt-enable, default-compare-value, interrupt-control,
  chip-configuration, pull-up-enable and output-latch are storage that reads back what was
  written, and interrupt-flag, interrupt-capture and input-state are read-only snapshots.
  The input-state register (GPIO) reads the live pin levels, with the polarity register
  inverting the bits it selects; a write to it loads the output latch (\<open>write_outputs\<close>
  writes it and \<open>read_outputs\<close> reads "the last values written" from the latch). The pin
  levels \<open>pins\<close> belong to the environment: they are independent of the latch (physical
  load). \<open>pointer\<close> is the register selected by the last write transaction.
\<close>

record chip =
  iodir :: u8
  ipol :: u8
  gpinten :: u8
  defval :: u8
  intcon :: u8
  iocon :: u8
  gppu :: u8
  intf :: u8
  intcap :: u8
  olat :: u8
  pins :: u8
  pointer :: u8

definition chip_read :: "chip \<Rightarrow> u8 \<Rightarrow> u8" where
  "chip_read c reg =
     (if reg = IODIR then iodir c
      else if reg = IPOL then ipol c
      else if reg = GPINTEN then gpinten c
      else if reg = DEFVAL then defval c
      else if reg = INTCON then intcon c
      else if reg = IOCON then iocon c
      else if reg = GPPU then gppu c
      else if reg = INTF then intf c
      else if reg = INTCAP then intcap c
      else if reg = GPIO then pins c XOR ipol c
      else if reg = OLAT then olat c
      else 0)"

definition chip_write :: "chip \<Rightarrow> u8 \<Rightarrow> u8 \<Rightarrow> chip" where
  "chip_write c reg v =
     (if reg = IODIR then c\<lparr>iodir := v\<rparr>
      else if reg = IPOL then c\<lparr>ipol := v\<rparr>
      else if reg = GPINTEN then c\<lparr>gpinten := v\<rparr>
      else if reg = DEFVAL then c\<lparr>defval := v\<rparr>
      else if reg = INTCON then c\<lparr>intcon := v\<rparr>
      else if reg = IOCON then c\<lparr>iocon := v\<rparr>
      else if reg = GPPU then c\<lparr>gppu := v\<rparr>
      else if reg = GPIO then c\<lparr>olat := v\<rparr>
      else if reg = OLAT then c\<lparr>olat := v\<rparr>
      else c)"

text \<open>
  A write transaction carries the register address and, when a second byte follows, the
  value for that register. The driver never sends more than two bytes.
\<close>

fun chip_receive :: "chip \<Rightarrow> u8 list \<Rightarrow> chip" where
  "chip_receive c [] = c"
| "chip_receive c [reg] = c\<lparr>pointer := reg\<rparr>"
| "chip_receive c (reg # v # _) = (chip_write c reg v)\<lparr>pointer := reg\<rparr>"

subsection \<open>The I2C transport\<close>

text \<open>
  Modelled from the spec: the platform's I2C object, a synchronous transport whose
  \<open>write\<close> and \<open>read\<close> return 0 on acknowledgment and nonzero otherwise, with a settable
  clock frequency. Whether a transaction is acknowledged is the environment's choice:
  \<open>faults\<close> lists, for the transactions to come, whether each one is left unacknowledged
  (an exhausted list acknowledges). An unacknowledged transaction does not reach the chip.
  The chip is the only device on the bus and the model does not decode the device address;
  the address of every transaction is kept in the driver's trace.
\<close>

record I2C =
  hz :: int
  dev :: chip
  faults :: "bool list"

definition nack :: "I2C \<Rightarrow> bool" where
  "nack b = (case faults b of [] \<Rightarrow> False | f # _ \<Rightarrow> f)"

definition I2C_frequency :: "int \<Rightarrow> I2C \<Rightarrow> I2C" where
  "I2C_frequency f b = b\<lparr>hz := f\<rparr>"

definition I2C_write :: "u8 \<Rightarrow> u8 list \<Rightarrow> I2C \<Rightarrow> int \<times> I2C" where
  "I2C_write address data b =
     (if nack b then (1, b\<lparr>faults := tl (faults b)\<rparr>)
      else (0, b\<lparr>dev := chip_receive (dev b) data, faults := tl (faults b)\<rparr>))"

text \<open>
  A one-byte read into the buffer \<open>data\<close>: the byte of the selected register replaces the
  first element when the transaction is acknowledged.
\<close>

definition I2C_read :: "u8 \<Rightarrow> u8 list \<Rightarrow> I2C \<Rightarrow> (int \<times> u8 list) \<times> I2C" where
  "I2C_read address data b =
     (if nack b then ((1, data), b\<lparr>faults := tl (faults b)\<rparr>)
      else ((0, chip_read (dev b) (pointer (dev b)) # tl data), b\<lparr>faults := tl (faults b)\<rparr>))"

subsection \<open>Driver state, fatal errors and sequencing\<close>

datatype event =
  Lock
| Unlock
| I2C_Write u8 "u8 list" bool
| I2C_Read u8 nat bool

text \<open>
  \<open>mutex\<close> counts how often the platform mutex is held; it is recursive, as
  \<open>ExpandedIO::mode\<close> relies on when it calls \<open>get_pullups\<close> with the mutex taken.
  \<open>trace\<close> is a record of what the driver did: every lock, unlock and bus transaction in order, a transaction
  with the address it was sent to, its bytes or length, and whether it was acknowledged.
\<close>

record MCP23008 =
  i2c :: I2C
  i2c_address :: u8
  mutex :: nat
  trace :: "event list"

datatype fatal_error =
  AddressOutOfRange
| MissingAckForWrite
| MissingAckForRead
| AssertionFailed

type_synonym 'a prog = "MCP23008 \<Rightarrow> (fatal_error + 'a) \<times> MCP23008"

definition ret :: "'a \<Rightarrow> 'a prog" where
  "ret a s = (Inr a, s)"

text \<open>
  Modelled from the spec: the platform's \<open>error\<close> function and \<open>MBED_ASSERT\<close> macro, which
  are not part of the sources. Both are fatal and do not return (an assertion that holds
  does nothing): the rest of the method is skipped and the state stays as it was reached.
\<close>

definition error :: "fatal_error \<Rightarrow> 'a prog" where
  "error e s = (Inl e, s)"

definition andThen :: "'a prog \<Rightarrow> ('a \<Rightarrow> 'b prog) \<Rightarrow> 'b prog" where
  "andThen m f s = (case m s of (Inl e, s') \<Rightarrow> (Inl e, s') | (Inr a, s') \<Rightarrow> f a s')"

definition MBED_ASSERT :: "bool \<Rightarrow> unit prog" where
  "MBED_ASSERT b = (if b then ret () else error AssertionFailed)"

definition mutex_lock :: "unit prog" where
  "mutex_lock s = (Inr (), s\<lparr>mutex := Suc (mutex s), trace := trace s @ [Lock]\<rparr>)"

definition mutex_unlock :: "unit prog" where
  "mutex_unlock s = (Inr (), s\<lparr>mutex := mutex s - 1, trace := trace s @ [Unlock]\<rparr>)"

definition i2c_write :: "u8 list \<Rightarrow> int prog" where
  "i2c_write data s =
     (case I2C_write (i2c_address s) data (i2c s) of
        (rc, b) \<Rightarrow>
          (Inr rc, s\<lparr>i2c := b, trace := trace s @ [I2C_Write (i2c_address s) data (rc = 0)]\<rparr>))"

definition i2c_read :: "u8 list \<Rightarrow> (int \<times> u8 list) prog" where
  "i2c_read data s =
     (case I2C_read (i2c_address s) data (i2c s) of
        (r, b) \<Rightarrow>
          (Inr r,
           s\<lparr>i2c := b, trace := trace s @ [I2C_Read (i2c_address s) (length data) (fst r = 0)]\<rparr>))"

subsection \<open>Register access\<close>

definition read_register :: "u8 \<Rightarrow> u8 prog" where
  "read_register reg =
     andThen mutex_lock (\<lambda>_.
     andThen (i2c_write [reg]) (\<lambda>rc.
     andThen (if 0 \<noteq> rc then error MissingAckForWrite else ret ()) (\<lambda>_.
     andThen (i2c_read [reg]) (\<lambda>(rc, data).
     andThen (if 0 \<noteq> rc then error MissingAckForRead else ret ()) (\<lambda>_.
     andThen mutex_unlock (\<lambda>_.
     ret (hd data)))))))"

definition write_register :: "u8 \<Rightarrow> u8 \<Rightarrow> unit prog" where
  "write_register reg v =
     andThen (i2c_write [reg, v]) (\<lambda>rc.
     if 0 \<noteq> rc then error MissingAckForWrite else ret ())"

subsection \<open>Reset and construction\<close>

function reset_loop :: "u8 \<Rightarrow> unit prog" where
  "reset_loop reg s =
     (if reg \<le> OLAT then
        (case write_register reg 0 s of
           (Inl e, s') \<Rightarrow> (Inl e, s')
         | (Inr _, s') \<Rightarrow> reset_loop (reg + 1) s')
      else (Inr (), s))"
  by pat_completeness auto
termination
proof (relation "measure (\<lambda>(reg, s). 11 - unat reg)")
  show "wf (measure (\<lambda>(reg :: u8, s :: MCP23008). 11 - unat reg))"
    by simp
next
  fix reg :: u8 and s :: MCP23008 and x x2 s'
  assume "reg \<le> OLAT"
  then have "unat reg \<le> 10"
    by (simp add: OLAT_def word_le_nat_alt)
  then have "unat (reg + 1) = unat reg + 1"
    by (simp add: unat_word_ariths)
  with \<open>unat reg \<le> 10\<close>
  show "((reg + 1, s'), (reg, s)) \<in> measure (\<lambda>(reg, s). 11 - unat reg)"
    by simp
qed

declare reset_loop.simps [simp del]

definition reset :: "unit prog" where
  "reset = andThen (write_register IODIR 0xFF) (\<lambda>_. reset_loop IPOL)"

text \<open>
  The constructor. \<open>sda\<close> and \<open>scl\<close> select the physical bus; the model is given that bus
  (with the chip on it) directly. The address member is initialised before the range check.
\<close>

definition i2c_frequency :: "int \<Rightarrow> unit prog" where
  "i2c_frequency f s = (Inr (), s\<lparr>i2c := I2C_frequency f (i2c s)\<rparr>)"

definition MCP23008_new :: "I2C \<Rightarrow> u8 \<Rightarrow> Frequency \<Rightarrow> (fatal_error + unit) \<times> MCP23008" where
  "MCP23008_new bus address freq =
     andThen (if address > 7 then error AddressOutOfRange else ret ()) (\<lambda>_.
     andThen (i2c_frequency (frequency_hz freq)) (\<lambda>_.
     reset))
       \<lparr>i2c = bus, i2c_address = MCP23008_ADDRESS OR push_bit 1 address, mutex = 0, trace = []\<rparr>"

subsection \<open>Public operations\<close>

definition set_input_pins :: "u8 \<Rightarrow> unit prog" where
  "set_input_pins pins' =
     andThen (read_register IODIR) (\<lambda>v.
     write_register IODIR (v OR pins'))"

definition set_output_pins :: "u8 \<Rightarrow> unit prog" where
  "set_output_pins pins' =
     andThen (read_register IODIR) (\<lambda>v.
     write_register IODIR (v AND NOT pins'))"

definition write_outputs :: "u8 \<Rightarrow> unit prog" where
  "write_outputs values = write_register GPIO values"

definition read_outputs :: "u8 prog" where
  "read_outputs = read_register OLAT"

definition read_inputs :: "u8 prog" where
  "read_inputs = read_register GPIO"

definition set_input_polarity :: "u8 \<Rightarrow> unit prog" where
  "set_input_polarity values = write_register IPOL values"

definition get_input_polarity :: "u8 prog" where
  "get_input_polarity = read_register IPOL"

definition set_pullups :: "u8 \<Rightarrow> unit prog" where
  "set_pullups values = write_register GPPU values"

definition get_pullups :: "u8 prog" where
  "get_pullups = read_register GPPU"

definition interrupt_on_changes :: "u8 \<Rightarrow> unit prog" where
  "interrupt_on_changes pins' =
     andThen (read_register INTCON) (\<lambda>v.
     andThen (write_register INTCON (v AND NOT pins')) (\<lambda>_.
     andThen (read_register GPINTEN) (\<lambda>v.
     write_register GPINTEN (v OR pins'))))"

definition disable_interrupts :: "u8 \<Rightarrow> unit prog" where
  "disable_interrupts pins' =
     andThen (read_register GPINTEN) (\<lambda>v.
     write_register GPINTEN (v AND NOT pins'))"

definition acknowledge_interrupt :: "(u8 \<times> u8) prog" where
  "acknowledge_interrupt =
     andThen (read_register INTF) (\<lambda>pin.
     andThen (read_register INTCAP) (\<lambda>values.
     ret (pin, values)))"

subsection \<open>Pin handles\<close>

text \<open>
  A handle is a reference to the driver and a \<open>Pin\<close>; the driver is the state the model
  threads, so a handle is its \<open>Pin\<close>. The source file defines the members of \<open>ExpandedIO\<close>
  as \<open>read\<close>, \<open>mode\<close>, \<open>write\<close>, \<open>output\<close> and \<open>input\<close>; the header calls them
  \<open>internal_read\<close> and so on, and the three handle classes forward to them. The results
  are C \<open>int\<close>s.
\<close>

definition ExpandedIO_read :: "Pin \<Rightarrow> int prog" where
  "ExpandedIO_read pin =
     andThen read_inputs (\<lambda>v.
     ret (uint (v AND pin_mask pin)))"

definition ExpandedIO_mode :: "Pin \<Rightarrow> PinMode \<Rightarrow> unit prog" where
  "ExpandedIO_mode pin pull =
     andThen (MBED_ASSERT (pull \<noteq> PullDown)) (\<lambda>_.
     andThen mutex_lock (\<lambda>_.
     andThen get_pullups (\<lambda>pullups.
     andThen (set_pullups
               (if pull = PullNone then pullups AND NOT (pin_mask pin)
                else if pull = PullUp then pullups OR pin_mask pin
                else pullups)) (\<lambda>_.
     mutex_unlock))))"

definition ExpandedIO_write :: "Pin \<Rightarrow> int \<Rightarrow> unit prog" where
  "ExpandedIO_write pin v =
     andThen read_outputs (\<lambda>outputs.
     if v \<noteq> 0 then write_outputs (outputs OR pin_mask pin)
     else write_outputs (outputs AND NOT (pin_mask pin)))"

definition ExpandedIO_output :: "Pin \<Rightarrow> unit prog" where
  "ExpandedIO_output pin = set_output_pins (pin_mask pin)"

definition ExpandedIO_input :: "Pin \<Rightarrow> unit prog" where
  "ExpandedIO_input pin = set_input_pins (pin_mask pin)"

text \<open>\<open>ExpandedInput\<close>: constructed by \<open>as_input\<close>; offers \<open>read\<close> and \<open>mode\<close>.\<close>

definition as_input :: "Pin \<Rightarrow> unit prog" where
  "as_input pin = ExpandedIO_input pin"

definition ExpandedInput_read :: "Pin \<Rightarrow> int prog" where
  "ExpandedInput_read pin = ExpandedIO_read pin"

definition ExpandedInput_mode :: "Pin \<Rightarrow> PinMode \<Rightarrow> unit prog" where
  "ExpandedInput_mode pin pull = ExpandedIO_mode pin pull"

text \<open>\<open>ExpandedOutput\<close>: constructed by \<open>as_output\<close>; offers \<open>write\<close> and \<open>read\<close>.\<close>

definition as_output :: "Pin \<Rightarrow> unit prog" where
  "as_output pin = ExpandedIO_output pin"

definition ExpandedOutput_write :: "Pin \<Rightarrow> int \<Rightarrow> unit prog" where
  "ExpandedOutput_write pin v = ExpandedIO_write pin v"

definition ExpandedOutput_read :: "Pin \<Rightarrow> int prog" where
  "ExpandedOutput_read pin = ExpandedIO_read pin"

text \<open>
  \<open>ExpandedInputOutput\<close>: constructed by \<open>as_input_output\<close>, which starts it as an output;
  offers all of \<open>write\<close>, \<open>read\<close>, \<open>output\<close>, \<open>input\<close> and \<open>mode\<close>.
\<close>

definition ExpandedInputOutput_output :: "Pin \<Rightarrow> unit prog" where
  "ExpandedInputOutput_output pin = ExpandedIO_output pin"

definition ExpandedInputOutput_input :: "Pin \<Rightarrow> unit prog" where
  "ExpandedInputOutput_input pin = ExpandedIO_input pin"

definition as_input_output :: "Pin \<Rightarrow> unit prog" where
  "as_input_output pin = ExpandedInputOutput_output pin"

definition ExpandedInputOutput_write :: "Pin \<Rightarrow> int \<Rightarrow> unit prog" where
  "ExpandedInputOutput_write pin v = ExpandedIO_write pin v"

definition ExpandedInputOutput_read :: "Pin \<Rightarrow> int prog" where
  "ExpandedInputOutput_read pin = ExpandedIO_read pin"

definition ExpandedInputOutput_mode :: "Pin \<Rightarrow> PinMode \<Rightarrow> unit prog" where
  "ExpandedInputOutput_mode pin pull = ExpandedIO_mode pin pull"

subsection \<open>Observing a trace, and an example set-up\<close>

text \<open>
  \<open>lock_depths d es\<close> lists, for every bus transaction of the trace \<open>es\<close> in order, how
  often the mutex was held when the transaction was issued, \<open>d\<close> being the count before
  the trace starts.
\<close>

fun lock_depths :: "nat \<Rightarrow> event list \<Rightarrow> nat list" where
  "lock_depths d [] = []"
| "lock_depths d (Lock # es) = lock_depths (Suc d) es"
| "lock_depths d (Unlock # es) = lock_depths (d - 1) es"
| "lock_depths d (e # es) = d # lock_depths d es"

text \<open>
  A chip with some registers set and pins GP1 and GP7 driven high from outside, on a bus
  that acknowledges everything, and a driver object for address strap 3 attached to it.
\<close>

definition example_chip :: chip where
  "example_chip =
     \<lparr>iodir = 0xF0, ipol = 0, gpinten = 0x05, defval = 0, intcon = 0x09, iocon = 0, gppu = 0x01,
      intf = 0, intcap = 0, olat = 0, pins = 0x82, pointer = 0\<rparr>"

definition example_bus :: I2C where
  "example_bus = \<lparr>hz = 100000, dev = example_chip, faults = []\<rparr>"

definition example_driver :: MCP23008 where
  "example_driver = \<lparr>i2c = example_bus, i2c_address = 0x46, mutex = 0, trace = []\<rparr>"

section \<open>Properties\<close>

subsection \<open>Sequencing and register access\<close>

lemmas reg_defs =
  IODIR_def IPOL_def GPINTEN_def DEFVAL_def INTCON_def IOCON_def GPPU_def INTF_def
  INTCAP_def GPIO_def OLAT_def

lemmas run_defs =
  andThen_def ret_def error_def MBED_ASSERT_def mutex_lock_def mutex_unlock_def
  i2c_write_def i2c_read_def I2C_write_def I2C_read_def nack_def

lemmas mode_defs =
  ExpandedIO_mode_def get_pullups_def set_pullups_def andThen_def ret_def error_def
  MBED_ASSERT_def mutex_lock_def mutex_unlock_def

lemma andThen_Inr:
  "andThen m f s = (Inr b, s') \<longleftrightarrow> (\<exists>a s1. m s = (Inr a, s1) \<and> f a s1 = (Inr b, s'))"
  by (cases "m s") (auto simp: andThen_def split: sum.splits)

lemma andThen_InrE:
  assumes "andThen m f s = (Inr b, s')"
  obtains a s1 where "m s = (Inr a, s1)" and "f a s1 = (Inr b, s')"
  using assms by (auto simp: andThen_Inr)

lemma chip_read_pointer [simp]: "chip_read (c\<lparr>pointer := p\<rparr>) reg = chip_read c reg"
  by (simp add: chip_read_def)

lemma read_register_eq:
  "read_register reg s =
     (if nack (i2c s) then
        (Inl MissingAckForWrite,
         s\<lparr>i2c := (i2c s)\<lparr>faults := tl (faults (i2c s))\<rparr>,
           mutex := Suc (mutex s),
           trace := trace s @ [Lock, I2C_Write (i2c_address s) [reg] False]\<rparr>)
      else if nack ((i2c s)\<lparr>faults := tl (faults (i2c s))\<rparr>) then
        (Inl MissingAckForRead,
         s\<lparr>i2c := (i2c s)\<lparr>dev := (dev (i2c s))\<lparr>pointer := reg\<rparr>,
                          faults := tl (tl (faults (i2c s)))\<rparr>,
           mutex := Suc (mutex s),
           trace := trace s @ [Lock, I2C_Write (i2c_address s) [reg] True,
                                I2C_Read (i2c_address s) 1 False]\<rparr>)
      else
        (Inr (chip_read (dev (i2c s)) reg),
         s\<lparr>i2c := (i2c s)\<lparr>dev := (dev (i2c s))\<lparr>pointer := reg\<rparr>,
                          faults := tl (tl (faults (i2c s)))\<rparr>,
           trace := trace s @ [Lock, I2C_Write (i2c_address s) [reg] True,
                                I2C_Read (i2c_address s) 1 True, Unlock]\<rparr>))"
  by (simp add: read_register_def run_defs)

lemma write_register_eq:
  "write_register reg v s =
     (if nack (i2c s) then
        (Inl MissingAckForWrite,
         s\<lparr>i2c := (i2c s)\<lparr>faults := tl (faults (i2c s))\<rparr>,
           trace := trace s @ [I2C_Write (i2c_address s) [reg, v] False]\<rparr>)
      else
        (Inr (),
         s\<lparr>i2c := (i2c s)\<lparr>dev := (chip_write (dev (i2c s)) reg v)\<lparr>pointer := reg\<rparr>,
                          faults := tl (faults (i2c s))\<rparr>,
           trace := trace s @ [I2C_Write (i2c_address s) [reg, v] True]\<rparr>))"
  by (simp add: write_register_def run_defs)

lemma write_register_Inr:
  assumes "write_register reg v s = (Inr u, s')"
  shows "s' = s\<lparr>i2c := (i2c s)\<lparr>dev := (chip_write (dev (i2c s)) reg v)\<lparr>pointer := reg\<rparr>,
                              faults := tl (faults (i2c s))\<rparr>,
                 trace := trace s @ [I2C_Write (i2c_address s) [reg, v] True]\<rparr>"
  using assms by (simp add: write_register_eq split: if_splits)

lemma read_register_Inr:
  assumes "read_register reg s = (Inr x, s')"
  shows "x = chip_read (dev (i2c s)) reg"
    and "s' = s\<lparr>i2c := (i2c s)\<lparr>dev := (dev (i2c s))\<lparr>pointer := reg\<rparr>,
                              faults := tl (tl (faults (i2c s)))\<rparr>,
                 trace := trace s @ [Lock, I2C_Write (i2c_address s) [reg] True,
                                      I2C_Read (i2c_address s) 1 True, Unlock]\<rparr>"
  using assms by (simp_all add: read_register_eq split: if_splits)

text \<open>A read of a register followed by a write of the same register.\<close>

lemma read_modify_write_Inr:
  assumes "andThen (read_register reg) (\<lambda>v. write_register reg (f v)) s = (Inr u, s')"
  shows "dev (i2c s') =
           (chip_write (dev (i2c s)) reg (f (chip_read (dev (i2c s)) reg)))\<lparr>pointer := reg\<rparr>"
    and "trace s' = trace s @
           [Lock, I2C_Write (i2c_address s) [reg] True, I2C_Read (i2c_address s) 1 True, Unlock,
            I2C_Write (i2c_address s) [reg, f (chip_read (dev (i2c s)) reg)] True]"
    and "i2c_address s' = i2c_address s" and "mutex s' = mutex s"
proof -
  from assms obtain v t where r: "read_register reg s = (Inr v, t)"
    and w: "write_register reg (f v) t = (Inr u, s')"
    by (rule andThen_InrE)
  note rs = read_register_Inr[OF r] and ws = write_register_Inr[OF w]
  show "dev (i2c s') =
           (chip_write (dev (i2c s)) reg (f (chip_read (dev (i2c s)) reg)))\<lparr>pointer := reg\<rparr>"
    using rs ws by (simp add: chip_write_def)
  show "trace s' = trace s @
           [Lock, I2C_Write (i2c_address s) [reg] True, I2C_Read (i2c_address s) 1 True, Unlock,
            I2C_Write (i2c_address s) [reg, f (chip_read (dev (i2c s)) reg)] True]"
    using rs ws by simp
  show "i2c_address s' = i2c_address s" using rs ws by simp
  show "mutex s' = mutex s" using rs ws by simp
qed


lemma and_not_and_self: "(x AND NOT p) AND p = (0 :: u8)"
  by (rule bit_eqI) (simp add: bit_simps)

lemma or_and_self: "(x OR p) AND p = (p :: u8)"
  by (rule bit_eqI) (auto simp: bit_simps)

lemma and_not_idem: "(x AND NOT p) AND NOT p = x AND NOT (p :: u8)"
  by (rule bit_eqI) (auto simp: bit_simps)

lemma or_and_not: "(x OR p) AND NOT p = x AND NOT (p :: u8)"
  by (rule bit_eqI) (auto simp: bit_simps)

lemma and_not_or: "((v AND NOT a) AND NOT b) AND (a OR b) = (0 :: u8)"
  by (rule bit_eqI) (auto simp: bit_simps)

lemma and_not_or_outside: "((v AND NOT a) AND NOT b) AND NOT (a OR b) = v AND NOT (a OR (b :: u8))"
  by (rule bit_eqI) (auto simp: bit_simps)

lemma and_single_bit: "(x :: u8) AND 2 ^ n = (if bit x n then 2 ^ n else 0)"
  by (rule bit_eqI) (auto simp: bit_simps)

lemma pin_mask_single:
  "pin \<noteq> Pin_All \<Longrightarrow> v AND pin_mask pin = 0 \<or> v AND pin_mask pin = pin_mask pin"
  using and_single_bit[of v 0] and_single_bit[of v 1] and_single_bit[of v 2]
    and_single_bit[of v 3] and_single_bit[of v 4] and_single_bit[of v 5]
    and_single_bit[of v 6] and_single_bit[of v 7]
  by (cases pin) (simp_all split: if_splits)

subsection \<open>Facts about the reset loop and the handle operations\<close>

lemma write_register_address [simp]:
  "i2c_address (snd (write_register reg v s)) = i2c_address s"
  by (simp add: write_register_eq)

lemma write_register_not_range:
  "fst (write_register reg v s) \<noteq> Inl AddressOutOfRange"
  by (simp add: write_register_eq)

lemma reset_loop_address: "i2c_address (snd (reset_loop reg s)) = i2c_address s"
proof (induction reg s rule: reset_loop.induct)
  case (1 reg s)
  show ?case
  proof (cases "reg \<le> OLAT")
    case False
    then show ?thesis by (subst reset_loop.simps) simp
  next
    case True
    show ?thesis
    proof (cases "write_register reg 0 s")
      case (Pair r s')
      have a: "i2c_address s' = i2c_address s"
        using write_register_address[of reg 0 s] Pair by simp
      show ?thesis
      proof (cases r)
        case (Inl e)
        with True Pair a show ?thesis by (subst reset_loop.simps) simp
      next
        case (Inr u)
        with True Pair a "1.IH"[OF True Pair[symmetric] _ , of u] show ?thesis
          by (subst reset_loop.simps) simp
      qed
    qed
  qed
qed

lemma reset_loop_not_range: "fst (reset_loop reg s) \<noteq> Inl AddressOutOfRange"
proof (induction reg s rule: reset_loop.induct)
  case (1 reg s)
  show ?case
  proof (cases "reg \<le> OLAT")
    case False
    then show ?thesis by (subst reset_loop.simps) simp
  next
    case True
    show ?thesis
    proof (cases "write_register reg 0 s")
      case (Pair r s')
      show ?thesis
      proof (cases r)
        case (Inl e)
        with True Pair write_register_not_range[of reg 0 s] show ?thesis
          by (subst reset_loop.simps) simp
      next
        case (Inr u)
        with True Pair "1.IH"[OF True Pair[symmetric] _ , of u] show ?thesis
          by (subst reset_loop.simps) simp
      qed
    qed
  qed
qed


lemma reset_address: "i2c_address (snd (reset s)) = i2c_address s"
  using write_register_address[of IODIR "0xFF" s]
  by (cases "write_register IODIR 0xFF s"; cases "fst (write_register IODIR 0xFF s)")
     (simp_all add: reset_def andThen_def reset_loop_address)

lemma reset_not_range: "fst (reset s) \<noteq> Inl AddressOutOfRange"
  using write_register_not_range[of IODIR "0xFF" s]
  by (cases "write_register IODIR 0xFF s"; cases "fst (write_register IODIR 0xFF s)")
     (simp_all add: reset_def andThen_def reset_loop_not_range)

lemma reset_loop_Inr_step:
  assumes "reset_loop reg s = (Inr u, s')" and "reg \<le> OLAT"
  shows "reset_loop (reg + 1)
           (s\<lparr>i2c := (i2c s)\<lparr>dev := (chip_write (dev (i2c s)) reg 0)\<lparr>pointer := reg\<rparr>,
                              faults := tl (faults (i2c s))\<rparr>,
              trace := trace s @ [I2C_Write (i2c_address s) [reg, 0] True]\<rparr>) = (Inr u, s')"
  using assms
  by (subst (asm) reset_loop.simps) (simp add: write_register_eq split: if_splits)

lemma reset_loop_Inr_done:
  assumes "reset_loop reg s = (Inr u, s')" and "\<not> reg \<le> OLAT"
  shows "s' = s"
  using assms by (subst (asm) reset_loop.simps) simp

lemma reset_Inr:
  assumes "reset s = (Inr u, s')"
  shows "dev (i2c s') =
           (dev (i2c s))\<lparr>iodir := 0xFF, ipol := 0, gpinten := 0, defval := 0, intcon := 0,
                          iocon := 0, gppu := 0, olat := 0, pointer := OLAT\<rparr> \<and>
         trace s' = trace s @
           [I2C_Write (i2c_address s) [0x00, 0xFF] True,
            I2C_Write (i2c_address s) [0x01, 0] True,
            I2C_Write (i2c_address s) [0x02, 0] True,
            I2C_Write (i2c_address s) [0x03, 0] True,
            I2C_Write (i2c_address s) [0x04, 0] True,
            I2C_Write (i2c_address s) [0x05, 0] True,
            I2C_Write (i2c_address s) [0x06, 0] True,
            I2C_Write (i2c_address s) [0x07, 0] True,
            I2C_Write (i2c_address s) [0x08, 0] True,
            I2C_Write (i2c_address s) [0x09, 0] True,
            I2C_Write (i2c_address s) [0x0A, 0] True] \<and>
         hz (i2c s') = hz (i2c s) \<and> i2c_address s' = i2c_address s \<and> mutex s' = mutex s"
proof -
  from assms obtain u0 t0 where w: "write_register IODIR 0xFF s = (Inr u0, t0)"
    and l: "reset_loop IPOL t0 = (Inr u, s')"
    unfolding reset_def by (rule andThen_InrE)
  note l1 = l[unfolded IPOL_def write_register_Inr[OF w]]
  note l2 = reset_loop_Inr_step[OF l1, unfolded OLAT_def, simplified]
  note l3 = reset_loop_Inr_step[OF l2, unfolded OLAT_def, simplified]
  note l4 = reset_loop_Inr_step[OF l3, unfolded OLAT_def, simplified]
  note l5 = reset_loop_Inr_step[OF l4, unfolded OLAT_def, simplified]
  note l6 = reset_loop_Inr_step[OF l5, unfolded OLAT_def, simplified]
  note l7 = reset_loop_Inr_step[OF l6, unfolded OLAT_def, simplified]
  note l8 = reset_loop_Inr_step[OF l7, unfolded OLAT_def, simplified]
  note l9 = reset_loop_Inr_step[OF l8, unfolded OLAT_def, simplified]
  note l10 = reset_loop_Inr_step[OF l9, unfolded OLAT_def, simplified]
  note l11 = reset_loop_Inr_step[OF l10, unfolded OLAT_def, simplified]
  note e = reset_loop_Inr_done[OF l11, unfolded OLAT_def, simplified]
  show ?thesis
    unfolding e by (simp add: chip_write_def reg_defs)
qed

lemma reset_loop_completes:
  "faults (i2c s) = [] \<Longrightarrow> fst (reset_loop reg s) = Inr ()"
proof (induction reg s rule: reset_loop.induct)
  case (1 reg s)
  show ?case
  proof (cases "reg \<le> OLAT")
    case False
    then show ?thesis by (subst reset_loop.simps) simp
  next
    case True
    obtain s' where w: "write_register reg 0 s = (Inr (), s')" and f: "faults (i2c s') = []"
      using "1.prems" by (simp add: write_register_eq nack_def)
    from "1.IH"[OF True w[symmetric] refl f] True w show ?thesis
      by (subst reset_loop.simps) simp
  qed
qed

text \<open>On a bus that acknowledges every transaction, a valid strap is constructed.\<close>

lemma construction_completes:
  assumes "address \<le> 7" and "faults bus = []"
  shows "fst (MCP23008_new bus address freq) = Inr ()"
proof -
  from assms(1) have n: "\<not> 7 < address" by simp
  let ?s = "\<lparr>i2c = I2C_frequency (frequency_hz freq) bus,
             i2c_address = MCP23008_ADDRESS OR push_bit 1 address, mutex = 0, trace = []\<rparr>"
  obtain t where w: "write_register IODIR 0xFF ?s = (Inr (), t)" and f: "faults (i2c t) = []"
    using assms(2) by (simp add: write_register_eq nack_def I2C_frequency_def)
  have "fst (reset ?s) = Inr ()"
    using w reset_loop_completes[OF f] by (simp add: reset_def andThen_def)
  then show ?thesis
    using n by (simp add: MCP23008_new_def andThen_def ret_def i2c_frequency_def)
qed

lemma read_inputs_Inr:
  assumes "read_inputs s = (Inr v, s')"
  shows "v = pins (dev (i2c s)) XOR ipol (dev (i2c s))"
    and "s' = s\<lparr>i2c := (i2c s)\<lparr>dev := (dev (i2c s))\<lparr>pointer := GPIO\<rparr>,
                              faults := tl (tl (faults (i2c s)))\<rparr>,
                 trace := trace s @ [Lock, I2C_Write (i2c_address s) [GPIO] True,
                                      I2C_Read (i2c_address s) 1 True, Unlock]\<rparr>"
  using read_register_Inr[OF assms[unfolded read_inputs_def]]
  by (simp_all add: chip_read_def reg_defs)

lemma ExpandedIO_read_Inr:
  assumes "ExpandedIO_read pin s = (Inr r, s')"
  shows "r = uint ((pins (dev (i2c s)) XOR ipol (dev (i2c s))) AND pin_mask pin)"
    and "trace s' = trace s @ [Lock, I2C_Write (i2c_address s) [0x09] True,
                                I2C_Read (i2c_address s) 1 True, Unlock]"
proof -
  from assms obtain v t where i: "read_inputs s = (Inr v, t)"
    and r: "ret (uint (v AND pin_mask pin)) t = (Inr r, s')"
    unfolding ExpandedIO_read_def by (rule andThen_InrE)
  from r have "r = uint (v AND pin_mask pin)" and "s' = t"
    by (simp_all add: ret_def)
  with read_inputs_Inr[OF i]
  show "r = uint ((pins (dev (i2c s)) XOR ipol (dev (i2c s))) AND pin_mask pin)"
    and "trace s' = trace s @ [Lock, I2C_Write (i2c_address s) [0x09] True,
                                I2C_Read (i2c_address s) 1 True, Unlock]"
    by (simp_all add: GPIO_def)
qed

lemma ExpandedIO_write_Inr:
  assumes "ExpandedIO_write pin v s = (Inr u, s')"
  shows "dev (i2c s') =
           (dev (i2c s))\<lparr>olat := (if v \<noteq> 0 then olat (dev (i2c s)) OR pin_mask pin
                                    else olat (dev (i2c s)) AND NOT (pin_mask pin)),
                          pointer := GPIO\<rparr>"
    and "i2c_address s' = i2c_address s"
proof -
  from assms obtain x t where r: "read_outputs s = (Inr x, t)"
    and w: "(if v \<noteq> 0 then write_outputs (x OR pin_mask pin)
             else write_outputs (x AND NOT (pin_mask pin))) t = (Inr u, s')"
    unfolding ExpandedIO_write_def by (rule andThen_InrE)
  note rs = read_register_Inr[OF r[unfolded read_outputs_def]]
  show "dev (i2c s') =
           (dev (i2c s))\<lparr>olat := (if v \<noteq> 0 then olat (dev (i2c s)) OR pin_mask pin
                                    else olat (dev (i2c s)) AND NOT (pin_mask pin)),
                          pointer := GPIO\<rparr>"
    using w rs
    by (cases "v = 0")
       (auto simp: write_outputs_def chip_read_def chip_write_def reg_defs
             dest!: write_register_Inr)
  show "i2c_address s' = i2c_address s"
    using w rs
    by (cases "v = 0") (auto simp: write_outputs_def dest!: write_register_Inr)
qed

subsection \<open>Output round trip\<close>

text \<open>
  C1. For every 8-bit value \<open>v\<close> and every state of driver, bus and chip (so whatever the
  pin levels are), \<open>write_outputs v\<close> followed by \<open>read_outputs\<close> returns exactly \<open>v\<close>,
  although the first writes register 0x09 (GPIO) and the second selects and reads register
  0x0A (OLAT).
\<close>

theorem write_then_read_outputs:
  assumes "write_outputs v s = (Inr u, s1)" and "read_outputs s1 = (Inr r, s2)"
  shows "r = v \<and>
         trace s2 = trace s @
          [I2C_Write (i2c_address s) [0x09, v] True,
           Lock, I2C_Write (i2c_address s) [0x0A] True, I2C_Read (i2c_address s) 1 True, Unlock]"
proof -
  note w = write_register_Inr[OF assms(1)[unfolded write_outputs_def]]
  note r = read_register_Inr[OF assms(2)[unfolded read_outputs_def]]
  have "r = v"
    using w r(1) by (simp add: chip_read_def chip_write_def reg_defs)
  moreover have "trace s2 = trace s @
          [I2C_Write (i2c_address s) [0x09, v] True,
           Lock, I2C_Write (i2c_address s) [0x0A] True, I2C_Read (i2c_address s) 1 True, Unlock]"
    using w r(2) by (simp add: reg_defs)
  ultimately show ?thesis by simp
qed

theorem write_then_read_outputs_witness:
  "write_outputs 0xA5 example_driver = (Inr (), snd (write_outputs 0xA5 example_driver)) \<and>
   read_outputs (snd (write_outputs 0xA5 example_driver)) =
     (Inr 0xA5, snd (read_outputs (snd (write_outputs 0xA5 example_driver)))) \<and>
   trace (snd (read_outputs (snd (write_outputs 0xA5 example_driver)))) =
     [I2C_Write 0x46 [0x09, 0xA5] True,
      Lock, I2C_Write 0x46 [0x0A] True, I2C_Read 0x46 1 True, Unlock]"
proof -
  have h1: "write_outputs 0xA5 example_driver =
      (Inr (), snd (write_outputs 0xA5 example_driver))"
    by code_simp
  have h2: "read_outputs (snd (write_outputs 0xA5 example_driver)) =
     (Inr 0xA5, snd (read_outputs (snd (write_outputs 0xA5 example_driver))))"
    by code_simp
  from write_then_read_outputs[OF h1 h2] h1 h2 show ?thesis
    by (simp add: example_driver_def)
qed

subsection \<open>Reading an output handle\<close>

text \<open>
  C2, as the code has it. \<open>ExpandedOutput::read\<close> is the shared \<open>ExpandedIO::read\<close>: it
  selects and reads the input-state register 0x09 (GPIO), not the output latch 0x0A, and
  returns the pin's bit of the live input state. After a \<open>write\<close> through the handle the
  value read is that bit of the pin levels (with the polarity inversion), whatever value was
  written.
\<close>

theorem output_handle_read:
  assumes "ExpandedOutput_write pin v s = (Inr u, s1)"
    and "ExpandedOutput_read pin s1 = (Inr r, s2)"
  shows "r = uint ((pins (dev (i2c s)) XOR ipol (dev (i2c s))) AND pin_mask pin) \<and>
         trace s2 = trace s1 @ [Lock, I2C_Write (i2c_address s) [0x09] True,
                                 I2C_Read (i2c_address s) 1 True, Unlock]"
  using ExpandedIO_write_Inr[OF assms(1)[unfolded ExpandedOutput_write_def]]
    ExpandedIO_read_Inr[OF assms(2)[unfolded ExpandedOutput_read_def]]
  by simp

theorem output_handle_read_witness:
  "ExpandedOutput_write Pin_GP1 0 example_driver =
     (Inr (), snd (ExpandedOutput_write Pin_GP1 0 example_driver)) \<and>
   ExpandedOutput_read Pin_GP1 (snd (ExpandedOutput_write Pin_GP1 0 example_driver)) =
     (Inr 2, snd (ExpandedOutput_read Pin_GP1
                    (snd (ExpandedOutput_write Pin_GP1 0 example_driver))))"
proof -
  have h1: "ExpandedOutput_write Pin_GP1 0 example_driver =
     (Inr (), snd (ExpandedOutput_write Pin_GP1 0 example_driver))"
    by code_simp
  have h2: "ExpandedOutput_read Pin_GP1 (snd (ExpandedOutput_write Pin_GP1 0 example_driver)) =
     (Inr (projr (fst (ExpandedOutput_read Pin_GP1
                    (snd (ExpandedOutput_write Pin_GP1 0 example_driver))))),
      snd (ExpandedOutput_read Pin_GP1
                    (snd (ExpandedOutput_write Pin_GP1 0 example_driver))))"
    by code_simp
  from output_handle_read[OF h1 h2]
  have "projr (fst (ExpandedOutput_read Pin_GP1
                    (snd (ExpandedOutput_write Pin_GP1 0 example_driver)))) = 2"
    by (simp add: example_driver_def example_bus_def example_chip_def)
  with h1 h2 show ?thesis by simp
qed

text \<open>
  It does not return the last value written: on the example chip pin GP0 is held low from
  outside. An output handle on GP0 is created, 1 is written through it, and \<open>read\<close> returns
  0 while the output latch holds 1; the read selects register 0x09.
\<close>

theorem output_handle_read_counterexample:
  "fst (as_output Pin_GP0 example_driver) = Inr () \<and>
   fst (ExpandedOutput_write Pin_GP0 1 (snd (as_output Pin_GP0 example_driver))) = Inr () \<and>
   fst (ExpandedOutput_read Pin_GP0
         (snd (ExpandedOutput_write Pin_GP0 1 (snd (as_output Pin_GP0 example_driver))))) =
     Inr 0 \<and>
   fst (read_outputs
         (snd (ExpandedOutput_write Pin_GP0 1 (snd (as_output Pin_GP0 example_driver))))) =
     Inr 1 \<and>
   trace (snd (ExpandedOutput_read Pin_GP0 example_driver)) =
     [Lock, I2C_Write 0x46 [0x09] True, I2C_Read 0x46 1 True, Unlock]"
  by code_simp

subsection \<open>Construction\<close>

text \<open>
  C3. For every address strap up to 7 the constructed object's device address is
  \<open>0x40 | (strap << 1)\<close> (strap 3 gives 0x46), and construction does not end in the
  address error. For every strap above 7 construction ends in the fatal address error
  before anything else happens: the bus frequency is not set and no transaction is issued.
\<close>

theorem device_address:
  "(address \<le> 7 \<longrightarrow>
      i2c_address (snd (MCP23008_new bus address freq)) = 0x40 OR push_bit 1 address \<and>
      fst (MCP23008_new bus address freq) \<noteq> Inl AddressOutOfRange) \<and>
   (7 < address \<longrightarrow>
      MCP23008_new bus address freq =
        (Inl AddressOutOfRange,
         \<lparr>i2c = bus, i2c_address = 0x40 OR push_bit 1 address, mutex = 0, trace = []\<rparr>))"
proof (intro conjI impI)
  assume "address \<le> 7"
  then have n: "\<not> 7 < address" by simp
  show "i2c_address (snd (MCP23008_new bus address freq)) = 0x40 OR push_bit 1 address"
    using n by (simp add: MCP23008_new_def andThen_def ret_def i2c_frequency_def reset_address
        MCP23008_ADDRESS_def)
  show "fst (MCP23008_new bus address freq) \<noteq> Inl AddressOutOfRange"
    using n by (simp add: MCP23008_new_def andThen_def ret_def i2c_frequency_def reset_not_range)
next
  assume "7 < address"
  then show "MCP23008_new bus address freq =
        (Inl AddressOutOfRange,
         \<lparr>i2c = bus, i2c_address = 0x40 OR push_bit 1 address, mutex = 0, trace = []\<rparr>)"
    by (simp add: MCP23008_new_def andThen_def error_def MCP23008_ADDRESS_def)
qed

theorem device_address_witness:
  "(3 :: u8) \<le> 7 \<and>
   i2c_address (snd (MCP23008_new example_bus 3 Frequency_400KHz)) = 0x46 \<and>
   fst (MCP23008_new example_bus 3 Frequency_400KHz) = Inr () \<and>
   7 < (8 :: u8) \<and>
   MCP23008_new example_bus 8 Frequency_400KHz =
     (Inl AddressOutOfRange, \<lparr>i2c = example_bus, i2c_address = 0x50, mutex = 0, trace = []\<rparr>)"
proof -
  have a: "(3 :: u8) \<le> 7" and b: "7 < (8 :: u8)" by simp_all
  have c: "fst (MCP23008_new example_bus 3 Frequency_400KHz) = Inr ()" by code_simp
  from device_address[of 3 example_bus Frequency_400KHz] a
  have "i2c_address (snd (MCP23008_new example_bus 3 Frequency_400KHz)) = 0x46" by simp
  moreover from device_address[of 8 example_bus Frequency_400KHz] b
  have "MCP23008_new example_bus 8 Frequency_400KHz =
     (Inl AddressOutOfRange, \<lparr>i2c = example_bus, i2c_address = 0x50, mutex = 0, trace = []\<rparr>)"
    by simp
  ultimately show ?thesis using a b c by simp
qed

text \<open>
  C4, as the code and the chip have it. A construction that completes leaves the direction
  register at 0xFF and the storage registers IPOL, GPINTEN, DEFVAL, INTCON, IOCON, GPPU and
  OLAT at zero; the interrupt-flag and interrupt-capture snapshots and the pin levels are
  what they were. The reset sequence is eleven separate write transactions to the device
  address: 0xFF to register 0x00 first, then zero to each of the registers 0x01 to 0x0A in
  order. The bus runs at the requested frequency.
\<close>

theorem construction_resets:
  assumes "MCP23008_new bus address freq = (Inr u, d)"
  shows "dev (i2c d) =
           (dev bus)\<lparr>iodir := 0xFF, ipol := 0, gpinten := 0, defval := 0, intcon := 0,
                      iocon := 0, gppu := 0, olat := 0, pointer := OLAT\<rparr> \<and>
         trace d =
           [I2C_Write (0x40 OR push_bit 1 address) [0x00, 0xFF] True,
            I2C_Write (0x40 OR push_bit 1 address) [0x01, 0] True,
            I2C_Write (0x40 OR push_bit 1 address) [0x02, 0] True,
            I2C_Write (0x40 OR push_bit 1 address) [0x03, 0] True,
            I2C_Write (0x40 OR push_bit 1 address) [0x04, 0] True,
            I2C_Write (0x40 OR push_bit 1 address) [0x05, 0] True,
            I2C_Write (0x40 OR push_bit 1 address) [0x06, 0] True,
            I2C_Write (0x40 OR push_bit 1 address) [0x07, 0] True,
            I2C_Write (0x40 OR push_bit 1 address) [0x08, 0] True,
            I2C_Write (0x40 OR push_bit 1 address) [0x09, 0] True,
            I2C_Write (0x40 OR push_bit 1 address) [0x0A, 0] True] \<and>
         hz (i2c d) = frequency_hz freq \<and> address \<le> 7"
proof -
  have le: "address \<le> 7"
    using assms by (auto simp: MCP23008_new_def andThen_def error_def split: if_splits)
  then have n: "\<not> 7 < address" by simp
  have "reset \<lparr>i2c = I2C_frequency (frequency_hz freq) bus,
               i2c_address = 0x40 OR push_bit 1 address, mutex = 0, trace = []\<rparr> = (Inr u, d)"
    using assms n
    by (simp add: MCP23008_new_def andThen_def ret_def i2c_frequency_def MCP23008_ADDRESS_def)
  from reset_Inr[OF this] le show ?thesis
    by (simp add: I2C_frequency_def)
qed

theorem construction_resets_witness:
  "MCP23008_new example_bus 3 Frequency_400KHz =
     (Inr (), snd (MCP23008_new example_bus 3 Frequency_400KHz)) \<and>
   dev (i2c (snd (MCP23008_new example_bus 3 Frequency_400KHz))) =
     \<lparr>iodir = 0xFF, ipol = 0, gpinten = 0, defval = 0, intcon = 0, iocon = 0, gppu = 0,
      intf = 0, intcap = 0, olat = 0, pins = 0x82, pointer = 0x0A\<rparr> \<and>
   hz (i2c (snd (MCP23008_new example_bus 3 Frequency_400KHz))) = 400000"
proof -
  have h: "MCP23008_new example_bus 3 Frequency_400KHz =
     (Inr (), snd (MCP23008_new example_bus 3 Frequency_400KHz))"
    by code_simp
  from construction_resets[OF h] h show ?thesis
    by (simp add: example_bus_def example_chip_def OLAT_def)
qed

text \<open>
  Not every register from 0x01 to 0x0A reads zero after construction: register 0x09 reads
  the pins, and on the example chip GP1 and GP7 are high.
\<close>

theorem construction_input_state_counterexample:
  "fst (MCP23008_new example_bus 3 Frequency_400KHz) = Inr () \<and>
   fst (read_inputs (snd (MCP23008_new example_bus 3 Frequency_400KHz))) = Inr 0x82"
  by code_simp

subsection \<open>Direction changes\<close>

text \<open>
  C5. For all masks \<open>a\<close>, \<open>b\<close> and every starting state, \<open>set_output_pins a\<close> followed by
  \<open>set_output_pins b\<close> leaves the direction bits of \<open>a | b\<close> cleared (output) and the
  other direction bits as they were; for every mask \<open>m\<close>, \<open>set_output_pins m\<close> followed by
  \<open>set_input_pins m\<close> leaves the direction bits of \<open>m\<close> set (input) and the others as they
  were. Each call is a read-modify-write of the direction register, and the later call wins
  on the bits both name.
\<close>

theorem set_pins_additive:
  "(set_output_pins a s = (Inr u1, s1) \<and> set_output_pins b s1 = (Inr u2, s2) \<longrightarrow>
      iodir (dev (i2c s2)) AND (a OR b) = 0 \<and>
      iodir (dev (i2c s2)) AND NOT (a OR b) = iodir (dev (i2c s)) AND NOT (a OR b)) \<and>
   (set_output_pins m s = (Inr u3, t1) \<and> set_input_pins m t1 = (Inr u4, t2) \<longrightarrow>
      iodir (dev (i2c t2)) AND m = m \<and>
      iodir (dev (i2c t2)) AND NOT m = iodir (dev (i2c s)) AND NOT m)"
proof (intro conjI impI; elim conjE)
  assume o1: "set_output_pins a s = (Inr u1, s1)" and o2: "set_output_pins b s1 = (Inr u2, s2)"
  have 1: "iodir (dev (i2c s1)) = iodir (dev (i2c s)) AND NOT a"
    using read_modify_write_Inr(1)[OF o1[unfolded set_output_pins_def]]
    by (simp add: chip_write_def chip_read_def reg_defs)
  have 2: "iodir (dev (i2c s2)) = iodir (dev (i2c s1)) AND NOT b"
    using read_modify_write_Inr(1)[OF o2[unfolded set_output_pins_def]]
    by (simp add: chip_write_def chip_read_def reg_defs)
  show "iodir (dev (i2c s2)) AND (a OR b) = 0"
    unfolding 1 2 by (rule and_not_or)
  show "iodir (dev (i2c s2)) AND NOT (a OR b) = iodir (dev (i2c s)) AND NOT (a OR b)"
    unfolding 1 2 by (rule and_not_or_outside)
next
  assume o: "set_output_pins m s = (Inr u3, t1)" and i: "set_input_pins m t1 = (Inr u4, t2)"
  have 1: "iodir (dev (i2c t1)) = iodir (dev (i2c s)) AND NOT m"
    using read_modify_write_Inr(1)[OF o[unfolded set_output_pins_def]]
    by (simp add: chip_write_def chip_read_def reg_defs)
  have 2: "iodir (dev (i2c t2)) = iodir (dev (i2c t1)) OR m"
    using read_modify_write_Inr(1)[OF i[unfolded set_input_pins_def]]
    by (simp add: chip_write_def chip_read_def reg_defs)
  show "iodir (dev (i2c t2)) AND m = m"
    unfolding 1 2 by (rule or_and_self)
  show "iodir (dev (i2c t2)) AND NOT m = iodir (dev (i2c s)) AND NOT m"
    unfolding 1 2 by (simp only: or_and_not and_not_idem)
qed

theorem set_pins_additive_witness:
  "set_output_pins 0x10 example_driver = (Inr (), snd (set_output_pins 0x10 example_driver)) \<and>
   set_output_pins 0x60 (snd (set_output_pins 0x10 example_driver)) =
     (Inr (), snd (set_output_pins 0x60 (snd (set_output_pins 0x10 example_driver)))) \<and>
   set_input_pins 0x10 (snd (set_output_pins 0x10 example_driver)) =
     (Inr (), snd (set_input_pins 0x10 (snd (set_output_pins 0x10 example_driver)))) \<and>
   iodir (dev (i2c (snd (set_output_pins 0x60 (snd (set_output_pins 0x10 example_driver)))))) AND
     (0x10 OR 0x60) = 0 \<and>
   iodir (dev (i2c (snd (set_input_pins 0x10 (snd (set_output_pins 0x10 example_driver)))))) AND
     0x10 = 0x10"
proof -
  have h1: "set_output_pins 0x10 example_driver =
      (Inr (), snd (set_output_pins 0x10 example_driver))"
    by code_simp
  have h2: "set_output_pins 0x60 (snd (set_output_pins 0x10 example_driver)) =
     (Inr (), snd (set_output_pins 0x60 (snd (set_output_pins 0x10 example_driver))))"
    by code_simp
  have h3: "set_input_pins 0x10 (snd (set_output_pins 0x10 example_driver)) =
     (Inr (), snd (set_input_pins 0x10 (snd (set_output_pins 0x10 example_driver))))"
    by code_simp
  from set_pins_additive[of "0x10" example_driver "()" _ "0x60" "()" _ "0x10" "()" _ "()"]
    h1 h2 h3
  show ?thesis by blast
qed

subsection \<open>Interrupt enable and disable\<close>

text \<open>
  C6. For every mask \<open>p\<close> and every starting state, \<open>interrupt_on_changes p\<close> followed by
  \<open>disable_interrupts p\<close> leaves the GPINTEN bits of \<open>p\<close> cleared and the INTCON bits of
  \<open>p\<close> cleared, and the bits outside \<open>p\<close> of both registers as they were.
\<close>

theorem interrupts_enable_then_disable:
  assumes "interrupt_on_changes p s = (Inr u1, s1)" and "disable_interrupts p s1 = (Inr u2, s2)"
  shows "gpinten (dev (i2c s2)) AND p = 0 \<and>
         intcon (dev (i2c s2)) AND p = 0 \<and>
         gpinten (dev (i2c s2)) AND NOT p = gpinten (dev (i2c s)) AND NOT p \<and>
         intcon (dev (i2c s2)) AND NOT p = intcon (dev (i2c s)) AND NOT p"
proof -
  from assms(1) obtain v t where r1: "read_register INTCON s = (Inr v, t)"
    and rest: "andThen (write_register INTCON (v AND NOT p)) (\<lambda>_.
               andThen (read_register GPINTEN) (\<lambda>v.
               write_register GPINTEN (v OR p))) t = (Inr u1, s1)"
    unfolding interrupt_on_changes_def by (rule andThen_InrE)
  from rest obtain u t' where w1: "write_register INTCON (v AND NOT p) t = (Inr u, t')"
    and rmw: "andThen (read_register GPINTEN) (\<lambda>v. write_register GPINTEN (v OR p)) t' =
                (Inr u1, s1)"
    by (rule andThen_InrE)
  note a = read_register_Inr[OF r1] and b = write_register_Inr[OF w1]
    and c = read_modify_write_Inr(1)[OF rmw]
    and d = read_modify_write_Inr(1)[OF assms(2)[unfolded disable_interrupts_def]]
  have t': "dev (i2c t') = (dev (i2c s))\<lparr>intcon := intcon (dev (i2c s)) AND NOT p,
                                           pointer := INTCON\<rparr>"
    using a b by (simp add: chip_write_def chip_read_def reg_defs)
  have s1: "dev (i2c s1) = (dev (i2c s))\<lparr>intcon := intcon (dev (i2c s)) AND NOT p,
                                           gpinten := gpinten (dev (i2c s)) OR p,
                                           pointer := GPINTEN\<rparr>"
    using c unfolding t' by (simp add: chip_write_def chip_read_def reg_defs)
  have s2: "dev (i2c s2) = (dev (i2c s))\<lparr>intcon := intcon (dev (i2c s)) AND NOT p,
                                           gpinten := (gpinten (dev (i2c s)) OR p) AND NOT p,
                                           pointer := GPINTEN\<rparr>"
    using d unfolding s1 by (simp add: chip_write_def chip_read_def reg_defs)
  have "gpinten (dev (i2c s2)) = (gpinten (dev (i2c s)) OR p) AND NOT p"
    and "intcon (dev (i2c s2)) = intcon (dev (i2c s)) AND NOT p"
    unfolding s2 by simp_all
  then show ?thesis
    by (simp only: and_not_and_self or_and_not and_not_idem simp_thms)
qed

theorem interrupts_enable_then_disable_witness:
  "interrupt_on_changes 0x03 example_driver =
     (Inr (), snd (interrupt_on_changes 0x03 example_driver)) \<and>
   disable_interrupts 0x03 (snd (interrupt_on_changes 0x03 example_driver)) =
     (Inr (), snd (disable_interrupts 0x03 (snd (interrupt_on_changes 0x03 example_driver)))) \<and>
   gpinten (dev (i2c (snd (disable_interrupts 0x03
       (snd (interrupt_on_changes 0x03 example_driver)))))) = 0x04 \<and>
   intcon (dev (i2c (snd (disable_interrupts 0x03
       (snd (interrupt_on_changes 0x03 example_driver)))))) = 0x08"
proof -
  have h1: "interrupt_on_changes 0x03 example_driver =
     (Inr (), snd (interrupt_on_changes 0x03 example_driver))"
    by code_simp
  have h2: "disable_interrupts 0x03 (snd (interrupt_on_changes 0x03 example_driver)) =
     (Inr (), snd (disable_interrupts 0x03 (snd (interrupt_on_changes 0x03 example_driver))))"
    by code_simp
  have v: "gpinten (dev (i2c (snd (disable_interrupts 0x03
       (snd (interrupt_on_changes 0x03 example_driver)))))) = 0x04"
       "intcon (dev (i2c (snd (disable_interrupts 0x03
       (snd (interrupt_on_changes 0x03 example_driver)))))) = 0x08"
    by code_simp+
  from interrupts_enable_then_disable[OF h1 h2] h1 h2 v show ?thesis
    by simp
qed

subsection \<open>Pull mode\<close>

text \<open>
  C7. \<open>mode\<close> with \<open>PullDown\<close> ends in the assertion failure with nothing done: no lock,
  no bus transaction, no register changed. With \<open>PullNone\<close> the pin's bit of the pull-up
  register is cleared and with \<open>PullUp\<close> it is set, by a read of the register and a write
  of the changed value, with every other bit and register as it was. The input and the
  input-output handle both forward \<open>mode\<close> to this operation.
\<close>

theorem mode_pull:
  "ExpandedIO_mode pin PullDown s = (Inl AssertionFailed, s) \<and>
   ExpandedInput_mode pin pull s = ExpandedIO_mode pin pull s \<and>
   ExpandedInputOutput_mode pin pull s = ExpandedIO_mode pin pull s \<and>
   (ExpandedIO_mode pin PullNone s = (Inr u, s1) \<longrightarrow>
      dev (i2c s1) =
        (dev (i2c s))\<lparr>gppu := gppu (dev (i2c s)) AND NOT (pin_mask pin), pointer := GPPU\<rparr> \<and>
      trace s1 = trace s @
        [Lock, Lock, I2C_Write (i2c_address s) [GPPU] True, I2C_Read (i2c_address s) 1 True,
         Unlock,
         I2C_Write (i2c_address s) [GPPU, gppu (dev (i2c s)) AND NOT (pin_mask pin)] True,
         Unlock]) \<and>
   (ExpandedIO_mode pin PullUp s = (Inr u', s2) \<longrightarrow>
      dev (i2c s2) =
        (dev (i2c s))\<lparr>gppu := gppu (dev (i2c s)) OR pin_mask pin, pointer := GPPU\<rparr> \<and>
      trace s2 = trace s @
        [Lock, Lock, I2C_Write (i2c_address s) [GPPU] True, I2C_Read (i2c_address s) 1 True,
         Unlock,
         I2C_Write (i2c_address s) [GPPU, gppu (dev (i2c s)) OR pin_mask pin] True,
         Unlock])"
proof (intro conjI impI)
  show "ExpandedIO_mode pin PullDown s = (Inl AssertionFailed, s)"
    by (simp add: ExpandedIO_mode_def MBED_ASSERT_def andThen_def error_def)
  show "ExpandedInput_mode pin pull s = ExpandedIO_mode pin pull s"
    by (simp add: ExpandedInput_mode_def)
  show "ExpandedInputOutput_mode pin pull s = ExpandedIO_mode pin pull s"
    by (simp add: ExpandedInputOutput_mode_def)
next
  assume m: "ExpandedIO_mode pin PullNone s = (Inr u, s1)"
  then show "dev (i2c s1) =
        (dev (i2c s))\<lparr>gppu := gppu (dev (i2c s)) AND NOT (pin_mask pin), pointer := GPPU\<rparr>"
    by (auto simp add: mode_defs read_register_eq write_register_eq chip_write_def chip_read_def reg_defs split: if_splits)
  from m show "trace s1 = trace s @
        [Lock, Lock, I2C_Write (i2c_address s) [GPPU] True, I2C_Read (i2c_address s) 1 True,
         Unlock,
         I2C_Write (i2c_address s) [GPPU, gppu (dev (i2c s)) AND NOT (pin_mask pin)] True,
         Unlock]"
    by (auto simp add: mode_defs read_register_eq write_register_eq chip_read_def reg_defs split: if_splits)
next
  assume m: "ExpandedIO_mode pin PullUp s = (Inr u', s2)"
  then show "dev (i2c s2) =
        (dev (i2c s))\<lparr>gppu := gppu (dev (i2c s)) OR pin_mask pin, pointer := GPPU\<rparr>"
    by (auto simp add: mode_defs read_register_eq write_register_eq chip_write_def chip_read_def reg_defs split: if_splits)
  from m show "trace s2 = trace s @
        [Lock, Lock, I2C_Write (i2c_address s) [GPPU] True, I2C_Read (i2c_address s) 1 True,
         Unlock,
         I2C_Write (i2c_address s) [GPPU, gppu (dev (i2c s)) OR pin_mask pin] True,
         Unlock]"
    by (auto simp add: mode_defs read_register_eq write_register_eq chip_read_def reg_defs split: if_splits)
qed

theorem mode_pull_witness:
  "ExpandedIO_mode Pin_GP1 PullDown example_driver = (Inl AssertionFailed, example_driver) \<and>
   ExpandedIO_mode Pin_GP0 PullNone example_driver =
     (Inr (), snd (ExpandedIO_mode Pin_GP0 PullNone example_driver)) \<and>
   gppu (dev (i2c (snd (ExpandedIO_mode Pin_GP0 PullNone example_driver)))) = 0x00 \<and>
   ExpandedIO_mode Pin_GP1 PullUp example_driver =
     (Inr (), snd (ExpandedIO_mode Pin_GP1 PullUp example_driver)) \<and>
   gppu (dev (i2c (snd (ExpandedIO_mode Pin_GP1 PullUp example_driver)))) = 0x03"
proof -
  have h1: "ExpandedIO_mode Pin_GP0 PullNone example_driver =
     (Inr (), snd (ExpandedIO_mode Pin_GP0 PullNone example_driver))"
    by code_simp
  have h2: "ExpandedIO_mode Pin_GP1 PullUp example_driver =
     (Inr (), snd (ExpandedIO_mode Pin_GP1 PullUp example_driver))"
    by code_simp
  from mode_pull[where pin = Pin_GP0 and s = example_driver and u = "()"
        and ?s1.0 = "snd (ExpandedIO_mode Pin_GP0 PullNone example_driver)"]
    mode_pull[where pin = Pin_GP1 and s = example_driver and u' = "()"
        and ?s2.0 = "snd (ExpandedIO_mode Pin_GP1 PullUp example_driver)"]
    h1 h2
  show ?thesis
    by (simp add: example_driver_def example_bus_def example_chip_def)
qed

subsection \<open>The mutex and the read-modify-write operations\<close>

text \<open>
  C8. The mutex is taken and released inside \<open>read_register\<close> only, and
  \<open>write_register\<close> takes no lock. In \<open>set_input_pins\<close> and \<open>set_output_pins\<close> the register
  select and the read happen with the mutex held once, and the write-back with the mutex
  released; \<open>ExpandedIO::mode\<close> holds it over all three transactions.
\<close>

theorem set_input_pins_lock_gap:
  "fst (set_input_pins 0x01 example_driver) = Inr () \<and>
   trace (snd (set_input_pins 0x01 example_driver)) =
     [Lock, I2C_Write 0x46 [0x00] True, I2C_Read 0x46 1 True, Unlock,
      I2C_Write 0x46 [0x00, 0xF1] True] \<and>
   lock_depths 0 (trace (snd (set_input_pins 0x01 example_driver))) = [1, 1, 0] \<and>
   lock_depths 0 (trace (snd (set_output_pins 0x10 example_driver))) = [1, 1, 0] \<and>
   lock_depths 0 (trace (snd (ExpandedIO_mode Pin_GP1 PullUp example_driver))) = [2, 2, 1]"
  by code_simp

text \<open>
  What the gap allows. The mutex is free once \<open>read_register\<close> has returned, so a second
  thread can run its own \<open>read_register\<close> of the direction register before the first one
  writes back. In that order of the four steps of two calls, \<open>set_input_pins 0x01\<close> and
  \<open>set_input_pins 0x02\<close> on a direction register holding 0xF0, the register ends at 0xF2:
  the first caller's bit is lost.
\<close>

lemma set_input_pins_lost_update:
  "mutex (snd (read_register IODIR example_driver)) = 0 \<and>
   fst (andThen (read_register IODIR) (\<lambda>va.
        andThen (read_register IODIR) (\<lambda>vb.
        andThen (write_register IODIR (va OR 0x01)) (\<lambda>_.
        write_register IODIR (vb OR 0x02)))) example_driver) = Inr () \<and>
   iodir (dev (i2c (snd
       (andThen (read_register IODIR) (\<lambda>va.
        andThen (read_register IODIR) (\<lambda>vb.
        andThen (write_register IODIR (va OR 0x01)) (\<lambda>_.
        write_register IODIR (vb OR 0x02)))) example_driver)))) = 0xF2"
  by code_simp

text \<open>
  The same holds from every state: of the three transactions of a read of a register
  followed by a write of it, the last is issued one lock level lower than the first two.
\<close>

lemma rmw_lock_depths:
  assumes "andThen (read_register reg) (\<lambda>v. write_register reg (f v)) s = (Inr u, s')"
  shows "lock_depths (mutex s) (drop (length (trace s)) (trace s')) =
           [Suc (mutex s), Suc (mutex s), mutex s]"
  using read_modify_write_Inr(2)[OF assms] by simp

subsection \<open>The register protocol\<close>

text \<open>
  C9. \<open>read_register\<close> sends a one-byte write carrying the register address and then a
  one-byte read, both to the driver's device address, and returns the byte the chip answers
  with. If the write is not acknowledged it ends in the fatal error after that one
  transaction, and if the read is not acknowledged after those two: nothing is retried.
  \<open>write_register\<close> sends one two-byte write, register address then value, and ends in the
  fatal error if it is not acknowledged.
\<close>

theorem register_protocol:
  "read_register reg s =
     (if nack (i2c s) then
        (Inl MissingAckForWrite,
         s\<lparr>i2c := (i2c s)\<lparr>faults := tl (faults (i2c s))\<rparr>,
           mutex := Suc (mutex s),
           trace := trace s @ [Lock, I2C_Write (i2c_address s) [reg] False]\<rparr>)
      else if nack ((i2c s)\<lparr>faults := tl (faults (i2c s))\<rparr>) then
        (Inl MissingAckForRead,
         s\<lparr>i2c := (i2c s)\<lparr>dev := (dev (i2c s))\<lparr>pointer := reg\<rparr>,
                          faults := tl (tl (faults (i2c s)))\<rparr>,
           mutex := Suc (mutex s),
           trace := trace s @ [Lock, I2C_Write (i2c_address s) [reg] True,
                                I2C_Read (i2c_address s) 1 False]\<rparr>)
      else
        (Inr (chip_read (dev (i2c s)) reg),
         s\<lparr>i2c := (i2c s)\<lparr>dev := (dev (i2c s))\<lparr>pointer := reg\<rparr>,
                          faults := tl (tl (faults (i2c s)))\<rparr>,
           trace := trace s @ [Lock, I2C_Write (i2c_address s) [reg] True,
                                I2C_Read (i2c_address s) 1 True, Unlock]\<rparr>)) \<and>
   write_register reg v s =
     (if nack (i2c s) then
        (Inl MissingAckForWrite,
         s\<lparr>i2c := (i2c s)\<lparr>faults := tl (faults (i2c s))\<rparr>,
           trace := trace s @ [I2C_Write (i2c_address s) [reg, v] False]\<rparr>)
      else
        (Inr (),
         s\<lparr>i2c := (i2c s)\<lparr>dev := (chip_write (dev (i2c s)) reg v)\<lparr>pointer := reg\<rparr>,
                          faults := tl (faults (i2c s))\<rparr>,
           trace := trace s @ [I2C_Write (i2c_address s) [reg, v] True]\<rparr>))"
  by (simp only: read_register_eq write_register_eq simp_thms)

theorem register_protocol_witness:
  "read_register GPPU example_driver =
     (Inr 0x01,
      example_driver\<lparr>i2c := example_bus\<lparr>dev := example_chip\<lparr>pointer := GPPU\<rparr>\<rparr>,
        trace := [Lock, I2C_Write 0x46 [0x06] True, I2C_Read 0x46 1 True, Unlock]\<rparr>) \<and>
   fst (read_register GPPU (example_driver\<lparr>i2c := example_bus\<lparr>faults := [True]\<rparr>\<rparr>)) =
     Inl MissingAckForWrite \<and>
   trace (snd (read_register GPPU (example_driver\<lparr>i2c := example_bus\<lparr>faults := [True]\<rparr>\<rparr>))) =
     [Lock, I2C_Write 0x46 [0x06] False] \<and>
   fst (read_register GPPU (example_driver\<lparr>i2c := example_bus\<lparr>faults := [False, True]\<rparr>\<rparr>)) =
     Inl MissingAckForRead \<and>
   trace (snd (read_register GPPU
            (example_driver\<lparr>i2c := example_bus\<lparr>faults := [False, True]\<rparr>\<rparr>))) =
     [Lock, I2C_Write 0x46 [0x06] True, I2C_Read 0x46 1 False] \<and>
   fst (write_register GPPU 0x0F (example_driver\<lparr>i2c := example_bus\<lparr>faults := [True]\<rparr>\<rparr>)) =
     Inl MissingAckForWrite \<and>
   trace (snd (write_register GPPU 0x0F
            (example_driver\<lparr>i2c := example_bus\<lparr>faults := [True]\<rparr>\<rparr>))) =
     [I2C_Write 0x46 [0x06, 0x0F] False] \<and>
   trace (snd (write_register GPPU 0x0F example_driver)) = [I2C_Write 0x46 [0x06, 0x0F] True]"
  using register_protocol[of GPPU example_driver "0x0F"]
    register_protocol[of GPPU "example_driver\<lparr>i2c := example_bus\<lparr>faults := [True]\<rparr>\<rparr>" "0x0F"]
    register_protocol[of GPPU "example_driver\<lparr>i2c := example_bus\<lparr>faults := [False, True]\<rparr>\<rparr>"
      "0x0F"]
  by (simp add: nack_def example_driver_def example_bus_def example_chip_def chip_read_def
      reg_defs)

subsection \<open>The value a handle reads\<close>

text \<open>
  C10, as the code has it. \<open>read\<close> of every handle returns \<open>read_inputs() & pin\<close> as an
  integer, not normalised to 0 or 1. For the eight single pins this is 0 or the pin's mask,
  so a high level on GP1 to GP7 reads as 2, 4, 8, 16, 32, 64 or 128.
\<close>

theorem handle_read_masked:
  assumes "read_inputs s = (Inr v, s')"
  shows "ExpandedIO_read pin s = (Inr (uint (v AND pin_mask pin)), s') \<and>
         ExpandedInput_read pin s = ExpandedIO_read pin s \<and>
         ExpandedOutput_read pin s = ExpandedIO_read pin s \<and>
         ExpandedInputOutput_read pin s = ExpandedIO_read pin s \<and>
         (pin \<noteq> Pin_All \<longrightarrow>
            uint (v AND pin_mask pin) = 0 \<or> uint (v AND pin_mask pin) = uint (pin_mask pin)) \<and>
         (pin \<noteq> Pin_All \<and> pin \<noteq> Pin_GP0 \<and> v AND pin_mask pin \<noteq> 0 \<longrightarrow>
            uint (v AND pin_mask pin) \<in> {2, 4, 8, 16, 32, 64, 128} \<and>
            1 < uint (v AND pin_mask pin))"
proof (intro conjI impI)
  show "ExpandedIO_read pin s = (Inr (uint (v AND pin_mask pin)), s')"
    using assms by (simp add: ExpandedIO_read_def andThen_def ret_def)
  show "ExpandedInput_read pin s = ExpandedIO_read pin s"
    by (simp add: ExpandedInput_read_def)
  show "ExpandedOutput_read pin s = ExpandedIO_read pin s"
    by (simp add: ExpandedOutput_read_def)
  show "ExpandedInputOutput_read pin s = ExpandedIO_read pin s"
    by (simp add: ExpandedInputOutput_read_def)
next
  assume "pin \<noteq> Pin_All"
  from pin_mask_single[OF this, of v]
  show "uint (v AND pin_mask pin) = 0 \<or> uint (v AND pin_mask pin) = uint (pin_mask pin)"
    by auto
next
  assume a: "pin \<noteq> Pin_All \<and> pin \<noteq> Pin_GP0 \<and> v AND pin_mask pin \<noteq> 0"
  then have "v AND pin_mask pin = pin_mask pin"
    using pin_mask_single[of pin v] by simp
  with a show "uint (v AND pin_mask pin) \<in> {2, 4, 8, 16, 32, 64, 128}"
    by (cases pin) simp_all
  then show "1 < uint (v AND pin_mask pin)"
    by auto
qed

theorem handle_read_masked_witness:
  "read_inputs example_driver = (Inr 0x82, snd (read_inputs example_driver)) \<and>
   ExpandedIO_read Pin_GP1 example_driver = (Inr 2, snd (read_inputs example_driver)) \<and>
   ExpandedIO_read Pin_GP7 example_driver = (Inr 128, snd (read_inputs example_driver)) \<and>
   ExpandedIO_read Pin_GP0 example_driver = (Inr 0, snd (read_inputs example_driver))"
proof -
  have h: "read_inputs example_driver = (Inr 0x82, snd (read_inputs example_driver))"
    by code_simp
  from handle_read_masked[OF h, of Pin_GP1] handle_read_masked[OF h, of Pin_GP7]
    handle_read_masked[OF h, of Pin_GP0] h
  show ?thesis by simp
qed

text \<open>
  \<open>Pin_All\<close> is a \<open>Pin\<close> too. A handle made with it reads the whole input byte, which
  need be neither 0 nor the mask 0xFF: on the example chip it is 0x82.
\<close>

theorem handle_read_all_pins_counterexample:
  "fst (as_input Pin_All example_driver) = Inr () \<and>
   fst (ExpandedInput_read Pin_All (snd (as_input Pin_All example_driver))) = Inr 130 \<and>
   uint (pin_mask Pin_All) = 255"
  by code_simp

end
